theory Spec2Isabelle
  imports Complex_Main "HOL-Library.Word"
begin

section \<open>The values handed to the graphics library\<close>

text \<open>
  Both programs (\<^verbatim>\<open>main.c\<close> and \<^verbatim>\<open>main.cpp\<close>) only build values and hand them to
  raylib. A \<^verbatim>\<open>float\<close> is only ever a literal that is passed on (0, 1, 2, 5, 10, 75:
  each exactly representable); the programs do no arithmetic on them, so a float literal
  is modelled by the real number it denotes. An \<^verbatim>\<open>int\<close> is likewise only a literal.
  A \<^verbatim>\<open>Vector3\<close> is written by position in the sources, a \<^verbatim>\<open>Color\<close> literal by its
  four bytes.
\<close>

datatype Vector3 = Vector3 real real real

datatype Color = Color "8 word" "8 word" "8 word" "8 word"

text \<open>
  Modelled from the spec: \<^verbatim>\<open>raylib.h\<close> is not among the sources, so its
  enumerations have the members that the sources name, and the projection mode the
  two that the data model gives it (perspective, orthographic). The fields of
  \<^verbatim>\<open>Camera3D\<close> are the ones that the initialiser in \<^verbatim>\<open>main.c\<close> names.
\<close>

datatype CameraProjection = CAMERA_PERSPECTIVE | CAMERA_ORTHOGRAPHIC

datatype CameraMode = CAMERA_FREE

datatype ConfigFlags = FLAG_WINDOW_RESIZABLE

record Camera3D =
  position :: Vector3
  target :: Vector3
  up :: Vector3
  fovy :: real
  projection :: CameraProjection

section \<open>The library as the programs see it\<close>

text \<open>
  One constructor per library function the programs call, with the arguments of the
  call. \<open>WindowShouldClose b\<close> is a poll that returned \<open>b\<close>.
  \<open>UpdateCamera c m c'\<close> is a call with a pointer to a camera holding \<open>c\<close>, which
  holds \<open>c'\<close> when the call returns.
\<close>

datatype call =
    SetConfigFlags ConfigFlags
  | InitWindow int int string
  | SetTargetFPS int
  | WindowShouldClose bool
  | UpdateCamera Camera3D CameraMode Camera3D
  | BeginDrawing
  | ClearBackground Color
  | BeginMode3D Camera3D
  | DrawCube Vector3 real real real Color
  | DrawGrid int real
  | EndMode3D
  | DrawText string int int int Color
  | EndDrawing
  | CloseWindow

text \<open>
  raylib itself is not part of the sources, so what it contributes is a parameter of the
  model: the two colour macros the programs use, the answer of the \<open>k\<close>-th call of
  \<^verbatim>\<open>WindowShouldClose\<close> and the camera that the \<open>k\<close>-th call of \<^verbatim>\<open>UpdateCamera\<close>
  leaves behind (it depends on the user's input at that moment, on the camera it finds
  and on the mode). Calls are counted from 0. No other library function returns a value
  or writes to a variable of the program.
\<close>

record raylib =
  GRAY :: Color
  RED :: Color
  should_close :: "nat \<Rightarrow> bool"
  update_camera :: "nat \<Rightarrow> Camera3D \<Rightarrow> CameraMode \<Rightarrow> Camera3D"

section \<open>The programs\<close>

text \<open>The variables of \<^verbatim>\<open>main\<close> that live across the loop.\<close>

record locals =
  camera :: Camera3D
  cube_position :: Vector3

text \<open>
  What a run that returns has done: the calls before the loop, the calls of each pass
  through the loop (the poll that admitted the pass, then the calls of the body), the
  calls after the loop (the poll that ended it, then the rest), the variables when
  \<^verbatim>\<open>main\<close> returns, and the value \<^verbatim>\<open>main\<close> returns.
\<close>

record run =
  startup :: "call list"
  frames :: "call list list"
  teardown :: "call list"
  at_exit :: locals
  exit_code :: int

text \<open>The calls of a run in the order in which they were made.\<close>

definition trace :: "run \<Rightarrow> call list" where
  "trace r = startup r @ concat (frames r) @ teardown r"

subsection \<open>main.c\<close>

text \<open>Lines 14 to 20: the camera's initial value.\<close>

definition camera_c :: Camera3D where
  "camera_c =
     \<lparr>position = Vector3 10 10 10, target = Vector3 0 0 0, up = Vector3 0 1 0,
      fovy = 75, projection = CAMERA_PERSPECTIVE\<rparr>"

text \<open>
  Lines 26 to 37, the body of the loop in its \<open>k\<close>-th pass: the variables afterwards and
  the calls made. \<^verbatim>\<open>UpdateCamera\<close> writes through the pointer; \<^verbatim>\<open>BeginMode3D\<close> and
  \<^verbatim>\<open>DrawCube\<close> read the variables by value.
\<close>

definition main_c_body :: "raylib \<Rightarrow> nat \<Rightarrow> locals \<Rightarrow> locals \<times> call list" where
  "main_c_body lib k s =
     (let s1 = s\<lparr>camera := update_camera lib k (camera s) CAMERA_FREE\<rparr>
      in (s1,
          [UpdateCamera (camera s) CAMERA_FREE (camera s1),
           BeginDrawing,
           ClearBackground (GRAY lib),
           BeginMode3D (camera s1),
           DrawCube (cube_position s1) 2 2 2 (RED lib),
           DrawGrid 10 1,
           EndMode3D,
           DrawText ''Test'' 10 10 16 (Color 0xFF 0xFF 0xFF 0xFF),
           EndDrawing]))"

text \<open>
  Lines 24 to 38. The loop has no bound of its own: it runs until a poll answers true,
  and a run whose polls never do does not return, which is the value \<open>None\<close>.
  \<open>k\<close> counts the passes made so far, \<open>fs\<close> holds their calls.
\<close>

partial_function (option)
  main_c_loop :: "raylib \<Rightarrow> nat \<Rightarrow> locals \<Rightarrow> call list list \<Rightarrow> (call list list \<times> locals) option"
where
  "main_c_loop lib k s fs =
     (if should_close lib k then Some (fs, s)
      else (case main_c_body lib k s of
              (s1, cs) \<Rightarrow> main_c_loop lib (Suc k) s1 (fs @ [WindowShouldClose False # cs])))"

text \<open>
  \<^verbatim>\<open>main\<close> with the camera's initial value as a parameter: lines 6 to 11, the
  variables, the loop, lines 40 and 42.
\<close>

definition run_c :: "raylib \<Rightarrow> Camera3D \<Rightarrow> run option" where
  "run_c lib cam =
     (let screenWidth = 800; screenHeight = 450;
          s0 = \<lparr>camera = cam, cube_position = Vector3 0 0 0\<rparr>
      in case main_c_loop lib 0 s0 [] of
           None \<Rightarrow> None
         | Some (fs, s) \<Rightarrow>
             Some \<lparr>startup = [SetConfigFlags FLAG_WINDOW_RESIZABLE,
                              InitWindow screenWidth screenHeight ''Raylib Test'',
                              SetTargetFPS 60],
                   frames = fs,
                   teardown = [WindowShouldClose True, CloseWindow],
                   at_exit = s,
                   exit_code = 0\<rparr>)"

definition main_c :: "raylib \<Rightarrow> run option" where
  "main_c lib = run_c lib camera_c"

subsection \<open>main.cpp\<close>

text \<open>Lines 14 to 19: the camera is declared, then every field is assigned.\<close>

definition camera_cpp :: Camera3D where
  "camera_cpp =
     \<lparr>position = Vector3 5 5 5, target = Vector3 0 0 0, up = Vector3 0 1 0,
      fovy = 75, projection = CAMERA_PERSPECTIVE\<rparr>"

text \<open>Lines 25 to 36.\<close>

definition main_cpp_body :: "raylib \<Rightarrow> nat \<Rightarrow> locals \<Rightarrow> locals \<times> call list" where
  "main_cpp_body lib k s =
     (let s1 = s\<lparr>camera := update_camera lib k (camera s) CAMERA_FREE\<rparr>
      in (s1,
          [UpdateCamera (camera s) CAMERA_FREE (camera s1),
           BeginDrawing,
           ClearBackground (GRAY lib),
           BeginMode3D (camera s1),
           DrawCube (cube_position s1) 2 2 2 (RED lib),
           DrawGrid 10 1,
           EndMode3D,
           DrawText ''Test'' 10 10 16 (Color 0xFF 0xFF 0xFF 0xFF),
           EndDrawing]))"

text \<open>Lines 23 to 37.\<close>

partial_function (option)
  main_cpp_loop :: "raylib \<Rightarrow> nat \<Rightarrow> locals \<Rightarrow> call list list \<Rightarrow> (call list list \<times> locals) option"
where
  "main_cpp_loop lib k s fs =
     (if should_close lib k then Some (fs, s)
      else (case main_cpp_body lib k s of
              (s1, cs) \<Rightarrow> main_cpp_loop lib (Suc k) s1 (fs @ [WindowShouldClose False # cs])))"

definition run_cpp :: "raylib \<Rightarrow> Camera3D \<Rightarrow> run option" where
  "run_cpp lib cam =
     (let screenWidth = 800; screenHeight = 450;
          s0 = \<lparr>camera = cam, cube_position = Vector3 0 0 0\<rparr>
      in case main_cpp_loop lib 0 s0 [] of
           None \<Rightarrow> None
         | Some (fs, s) \<Rightarrow>
             Some \<lparr>startup = [SetConfigFlags FLAG_WINDOW_RESIZABLE,
                              InitWindow screenWidth screenHeight ''Raylib Test'',
                              SetTargetFPS 60],
                   frames = fs,
                   teardown = [WindowShouldClose True, CloseWindow],
                   at_exit = s,
                   exit_code = 0\<rparr>)"

definition main_cpp :: "raylib \<Rightarrow> run option" where
  "main_cpp lib = run_cpp lib camera_cpp"

section \<open>Reading a run\<close>

text \<open>
  The camera variable after \<open>k\<close> passes of a loop that started with camera \<open>c\<close>, if
  nothing but the \<^verbatim>\<open>UpdateCamera\<close> call of each pass wrote to it; and the variables
  of \<^verbatim>\<open>main\<close> then, if nothing ever wrote to \<^verbatim>\<open>cube_position\<close>.
\<close>

primrec camera_after :: "raylib \<Rightarrow> Camera3D \<Rightarrow> nat \<Rightarrow> Camera3D" where
  "camera_after lib c 0 = c"
| "camera_after lib c (Suc k) = update_camera lib k (camera_after lib c k) CAMERA_FREE"

definition locals_after :: "raylib \<Rightarrow> Camera3D \<Rightarrow> nat \<Rightarrow> locals" where
  "locals_after lib c k = \<lparr>camera = camera_after lib c k, cube_position = Vector3 0 0 0\<rparr>"

text \<open>The calls of pass \<open>k\<close> of each program from those variables.\<close>

definition pass_c :: "raylib \<Rightarrow> Camera3D \<Rightarrow> nat \<Rightarrow> call list" where
  "pass_c lib c k = WindowShouldClose False # snd (main_c_body lib k (locals_after lib c k))"

definition pass_cpp :: "raylib \<Rightarrow> Camera3D \<Rightarrow> nat \<Rightarrow> call list" where
  "pass_cpp lib c k = WindowShouldClose False # snd (main_cpp_body lib k (locals_after lib c k))"

text \<open>Selections of calls, to project a pass onto the calls a property is about.\<close>

fun is_render :: "call \<Rightarrow> bool" where
  "is_render (ClearBackground c) = True"
| "is_render (BeginMode3D c) = True"
| "is_render (DrawCube p w h l c) = True"
| "is_render (DrawGrid n sp) = True"
| "is_render EndMode3D = True"
| "is_render (DrawText t x y sz c) = True"
| "is_render EndDrawing = True"
| "is_render _ = False"

fun is_mode3d_or_text :: "call \<Rightarrow> bool" where
  "is_mode3d_or_text (BeginMode3D c) = True"
| "is_mode3d_or_text EndMode3D = True"
| "is_mode3d_or_text (DrawText t x y sz c) = True"
| "is_mode3d_or_text _ = False"

fun is_cube_or_grid :: "call \<Rightarrow> bool" where
  "is_cube_or_grid (DrawCube p w h l c) = True"
| "is_cube_or_grid (DrawGrid n sp) = True"
| "is_cube_or_grid _ = False"

fun is_camera_call :: "call \<Rightarrow> bool" where
  "is_camera_call (UpdateCamera c m c') = True"
| "is_camera_call (BeginMode3D c) = True"
| "is_camera_call _ = False"

fun is_update :: "call \<Rightarrow> bool" where
  "is_update (UpdateCamera c m c') = True"
| "is_update _ = False"

fun is_draw :: "call \<Rightarrow> bool" where
  "is_draw (DrawCube p w h l c) = True"
| "is_draw (DrawGrid n sp) = True"
| "is_draw (DrawText t x y sz c) = True"
| "is_draw _ = False"

text \<open>
  Walks a sequence of calls and keeps track of whether the 3D scope is open: true when
  no \<^verbatim>\<open>DrawText\<close> happens while it is.
\<close>

fun text_outside_3d :: "bool \<Rightarrow> call list \<Rightarrow> bool" where
  "text_outside_3d inside [] = True"
| "text_outside_3d inside (BeginMode3D c # cs) = text_outside_3d True cs"
| "text_outside_3d inside (EndMode3D # cs) = text_outside_3d False cs"
| "text_outside_3d inside (DrawText t x y sz c # cs) = (\<not> inside \<and> text_outside_3d inside cs)"
| "text_outside_3d inside (_ # cs) = text_outside_3d inside cs"

text \<open>
  The \<open>k\<close>-th poll of a run with this library happens: every earlier poll answered
  false.
\<close>

definition polled :: "raylib \<Rightarrow> nat \<Rightarrow> bool" where
  "polled lib k = (\<forall>j<k. \<not> should_close lib j)"

text \<open>
  Two libraries that a program started with camera \<open>c\<close> cannot tell apart: the same
  colours, the same answer to every poll that happens, and the same camera from every
  \<^verbatim>\<open>UpdateCamera\<close> call that happens. They may differ anywhere else.
\<close>

definition same_observations :: "raylib \<Rightarrow> raylib \<Rightarrow> Camera3D \<Rightarrow> bool" where
  "same_observations lib1 lib2 c =
     (GRAY lib2 = GRAY lib1 \<and> RED lib2 = RED lib1 \<and>
      (\<forall>k. polled lib1 k \<longrightarrow> should_close lib2 k = should_close lib1 k) \<and>
      (\<forall>k. polled lib1 (Suc k) \<longrightarrow>
         update_camera lib2 k (camera_after lib1 c k) CAMERA_FREE =
         update_camera lib1 k (camera_after lib1 c k) CAMERA_FREE))"

section \<open>Runs in closed form\<close>

text \<open>The run of \<^verbatim>\<open>main.c\<close> when poll \<open>n\<close> is the first to answer true.\<close>

definition run_of_c :: "raylib \<Rightarrow> Camera3D \<Rightarrow> nat \<Rightarrow> run" where
  "run_of_c lib c n =
     \<lparr>startup = [SetConfigFlags FLAG_WINDOW_RESIZABLE, InitWindow 800 450 ''Raylib Test'',
                 SetTargetFPS 60],
      frames = map (pass_c lib c) [0..<n],
      teardown = [WindowShouldClose True, CloseWindow],
      at_exit = locals_after lib c n,
      exit_code = 0\<rparr>"

text \<open>The run of \<^verbatim>\<open>main.cpp\<close> when poll \<open>n\<close> is the first to answer true.\<close>

definition run_of_cpp :: "raylib \<Rightarrow> Camera3D \<Rightarrow> nat \<Rightarrow> run" where
  "run_of_cpp lib c n =
     \<lparr>startup = [SetConfigFlags FLAG_WINDOW_RESIZABLE, InitWindow 800 450 ''Raylib Test'',
                 SetTargetFPS 60],
      frames = map (pass_cpp lib c) [0..<n],
      teardown = [WindowShouldClose True, CloseWindow],
      at_exit = locals_after lib c n,
      exit_code = 0\<rparr>"

section \<open>Sample libraries\<close>

text \<open>A user who moves the camera one unit along x in every frame.\<close>

definition step_x :: "nat \<Rightarrow> Camera3D \<Rightarrow> CameraMode \<Rightarrow> Camera3D" where
  "step_x k c m = c\<lparr>position := (case position c of Vector3 x y z \<Rightarrow> Vector3 (x + 1) y z)\<rparr>"

text \<open>The window is asked to close between frame \<open>n\<close> and the poll after it.\<close>

definition close_after :: "nat \<Rightarrow> raylib" where
  "close_after n =
     \<lparr>GRAY = Color 130 130 130 255, RED = Color 230 41 55 255,
      should_close = (\<lambda>k. n \<le> k), update_camera = step_x\<rparr>"

text \<open>
  As \<open>close_after 3\<close> up to the poll that answers true; afterwards the close request
  is withdrawn and the camera no longer moves.
\<close>

definition close_once :: raylib where
  "close_once =
     \<lparr>GRAY = Color 130 130 130 255, RED = Color 230 41 55 255,
      should_close = (\<lambda>k. k = 3),
      update_camera = (\<lambda>k c m. if k < 3 then step_x k c m else c)\<rparr>"

section \<open>The loop returns exactly when a poll answers true\<close>

lemma first_close:
  assumes "should_close lib m"
  shows "\<exists>n. should_close lib n \<and> polled lib n"
proof -
  let ?n = "LEAST n. should_close lib n"
  have "should_close lib ?n" using assms by (rule LeastI)
  moreover have "polled lib ?n"
    unfolding polled_def using not_less_Least by blast
  ultimately show ?thesis by blast
qed

subsection \<open>main.c\<close>

lemma pass_c_calls:
  "pass_c lib c k =
     [WindowShouldClose False,
      UpdateCamera (camera_after lib c k) CAMERA_FREE (camera_after lib c (Suc k)),
      BeginDrawing,
      ClearBackground (GRAY lib),
      BeginMode3D (camera_after lib c (Suc k)),
      DrawCube (Vector3 0 0 0) 2 2 2 (RED lib),
      DrawGrid 10 1,
      EndMode3D,
      DrawText ''Test'' 10 10 16 (Color 255 255 255 255),
      EndDrawing]"
  by (simp add: pass_c_def main_c_body_def locals_after_def Let_def)

lemma main_c_body_fst:
  "fst (main_c_body lib k (locals_after lib c k)) = locals_after lib c (Suc k)"
  by (simp add: main_c_body_def locals_after_def Let_def)

lemma main_c_loop_unroll:
  assumes "polled lib n" and "m \<le> n"
  shows "main_c_loop lib 0 (locals_after lib c 0) [] =
         main_c_loop lib m (locals_after lib c m) (map (pass_c lib c) [0..<m])"
  using assms(2)
proof (induction m)
  case 0
  show ?case by simp
next
  case (Suc m)
  then have still: "\<not> should_close lib m"
    using assms(1) by (simp add: polled_def)
  have "main_c_loop lib m (locals_after lib c m) (map (pass_c lib c) [0..<m]) =
        main_c_loop lib (Suc m) (locals_after lib c (Suc m)) (map (pass_c lib c) [0..<Suc m])"
    using still main_c_body_fst [of lib m c]
    by (subst main_c_loop.simps) (simp add: pass_c_def case_prod_beta)
  with Suc show ?case by simp
qed

lemma main_c_loop_closed:
  assumes "should_close lib n" and "polled lib n"
  shows "main_c_loop lib 0 (locals_after lib c 0) [] =
         Some (map (pass_c lib c) [0..<n], locals_after lib c n)"
proof -
  have "main_c_loop lib n (locals_after lib c n) (map (pass_c lib c) [0..<n]) =
        Some (map (pass_c lib c) [0..<n], locals_after lib c n)"
    using assms(1) by (subst main_c_loop.simps) simp
  with main_c_loop_unroll [OF assms(2) order_refl, of c] show ?thesis by simp
qed

lemma main_c_loop_returns:
  assumes r: "main_c_loop lib k s fs = Some y"
  shows "\<exists>n. should_close lib n"
proof (rule main_c_loop.raw_induct [where P = "\<lambda>lib k s fs y. \<exists>n. should_close lib n", OF _ r],
    goal_cases)
  case (1 loop lib k s fs y)
  note IH = this(1) and step = this(2)
  show ?case
  proof (cases "should_close lib k")
    case True
    then show ?thesis by blast
  next
    case False
    obtain s1 cs where b: "main_c_body lib k s = (s1, cs)"
      by (cases "main_c_body lib k s")
    have "loop lib (Suc k) s1 (fs @ [WindowShouldClose False # cs]) = Some y"
      using False b step by simp
    then show ?thesis
      by (rule IH)
  qed
qed

lemma run_c_closed:
  assumes "should_close lib n" and "polled lib n"
  shows "run_c lib c = Some (run_of_c lib c n)"
  using main_c_loop_closed [OF assms, of c]
  by (simp add: run_c_def run_of_c_def locals_after_def)

lemma run_c_never:
  assumes "\<forall>n. \<not> should_close lib n"
  shows "run_c lib c = None"
proof (cases "main_c_loop lib 0 \<lparr>camera = c, cube_position = Vector3 0 0 0\<rparr> []")
  case None
  then show ?thesis by (simp add: run_c_def)
next
  case (Some y)
  then show ?thesis using main_c_loop_returns assms by blast
qed

lemma run_c_returns:
  assumes "run_c lib c = Some r"
  shows "\<exists>n. should_close lib n \<and> polled lib n \<and> r = run_of_c lib c n"
proof -
  have "\<exists>m. should_close lib m"
    using assms run_c_never [of lib c] by (cases "\<exists>m. should_close lib m") auto
  then obtain n where n: "should_close lib n" "polled lib n"
    using first_close by blast
  then show ?thesis using run_c_closed [OF n, of c] assms by auto
qed

subsection \<open>main.cpp\<close>

lemma pass_cpp_calls:
  "pass_cpp lib c k =
     [WindowShouldClose False,
      UpdateCamera (camera_after lib c k) CAMERA_FREE (camera_after lib c (Suc k)),
      BeginDrawing,
      ClearBackground (GRAY lib),
      BeginMode3D (camera_after lib c (Suc k)),
      DrawCube (Vector3 0 0 0) 2 2 2 (RED lib),
      DrawGrid 10 1,
      EndMode3D,
      DrawText ''Test'' 10 10 16 (Color 255 255 255 255),
      EndDrawing]"
  by (simp add: pass_cpp_def main_cpp_body_def locals_after_def Let_def)

lemma main_cpp_body_fst:
  "fst (main_cpp_body lib k (locals_after lib c k)) = locals_after lib c (Suc k)"
  by (simp add: main_cpp_body_def locals_after_def Let_def)

lemma main_cpp_loop_unroll:
  assumes "polled lib n" and "m \<le> n"
  shows "main_cpp_loop lib 0 (locals_after lib c 0) [] =
         main_cpp_loop lib m (locals_after lib c m) (map (pass_cpp lib c) [0..<m])"
  using assms(2)
proof (induction m)
  case 0
  show ?case by simp
next
  case (Suc m)
  then have still: "\<not> should_close lib m"
    using assms(1) by (simp add: polled_def)
  have "main_cpp_loop lib m (locals_after lib c m) (map (pass_cpp lib c) [0..<m]) =
        main_cpp_loop lib (Suc m) (locals_after lib c (Suc m)) (map (pass_cpp lib c) [0..<Suc m])"
    using still main_cpp_body_fst [of lib m c]
    by (subst main_cpp_loop.simps) (simp add: pass_cpp_def case_prod_beta)
  with Suc show ?case by simp
qed

lemma main_cpp_loop_closed:
  assumes "should_close lib n" and "polled lib n"
  shows "main_cpp_loop lib 0 (locals_after lib c 0) [] =
         Some (map (pass_cpp lib c) [0..<n], locals_after lib c n)"
proof -
  have "main_cpp_loop lib n (locals_after lib c n) (map (pass_cpp lib c) [0..<n]) =
        Some (map (pass_cpp lib c) [0..<n], locals_after lib c n)"
    using assms(1) by (subst main_cpp_loop.simps) simp
  with main_cpp_loop_unroll [OF assms(2) order_refl, of c] show ?thesis by simp
qed

lemma main_cpp_loop_returns:
  assumes r: "main_cpp_loop lib k s fs = Some y"
  shows "\<exists>n. should_close lib n"
proof (rule main_cpp_loop.raw_induct [where P = "\<lambda>lib k s fs y. \<exists>n. should_close lib n", OF _ r],
    goal_cases)
  case (1 loop lib k s fs y)
  note IH = this(1) and step = this(2)
  show ?case
  proof (cases "should_close lib k")
    case True
    then show ?thesis by blast
  next
    case False
    obtain s1 cs where b: "main_cpp_body lib k s = (s1, cs)"
      by (cases "main_cpp_body lib k s")
    have "loop lib (Suc k) s1 (fs @ [WindowShouldClose False # cs]) = Some y"
      using False b step by simp
    then show ?thesis
      by (rule IH)
  qed
qed

lemma run_cpp_closed:
  assumes "should_close lib n" and "polled lib n"
  shows "run_cpp lib c = Some (run_of_cpp lib c n)"
  using main_cpp_loop_closed [OF assms, of c]
  by (simp add: run_cpp_def run_of_cpp_def locals_after_def)

lemma run_cpp_never:
  assumes "\<forall>n. \<not> should_close lib n"
  shows "run_cpp lib c = None"
proof (cases "main_cpp_loop lib 0 \<lparr>camera = c, cube_position = Vector3 0 0 0\<rparr> []")
  case None
  then show ?thesis by (simp add: run_cpp_def)
next
  case (Some y)
  then show ?thesis using main_cpp_loop_returns assms by blast
qed

lemma run_cpp_returns:
  assumes "run_cpp lib c = Some r"
  shows "\<exists>n. should_close lib n \<and> polled lib n \<and> r = run_of_cpp lib c n"
proof -
  have "\<exists>m. should_close lib m"
    using assms run_cpp_never [of lib c] by (cases "\<exists>m. should_close lib m") auto
  then obtain n where n: "should_close lib n" "polled lib n"
    using first_close by blast
  then show ?thesis using run_cpp_closed [OF n, of c] assms by auto
qed

section \<open>What every run looks like\<close>

lemma frames_run_of_c: "frames (run_of_c lib c n) = map (pass_c lib c) [0..<n]"
  by (simp add: run_of_c_def)

lemma frames_run_of_cpp: "frames (run_of_cpp lib c n) = map (pass_cpp lib c) [0..<n]"
  by (simp add: run_of_cpp_def)

lemma pass_cpp_eq: "pass_cpp lib c k = pass_c lib c k"
  by (simp add: pass_c_calls pass_cpp_calls)

lemma run_of_cpp_eq: "run_of_cpp lib c n = run_of_c lib c n"
  by (simp add: run_of_c_def run_of_cpp_def pass_cpp_eq)

lemma count_CloseWindow_passes:
  "count_list (concat (map (pass_c lib c) ks)) CloseWindow = 0"
  by (induction ks) (simp_all add: pass_c_calls)

lemma no_close_poll_in_passes:
  "WindowShouldClose True \<notin> set (concat (map (pass_c lib c) ks))"
  by (induction ks) (simp_all add: pass_c_calls)

lemma trace_run_of_c:
  "trace (run_of_c lib c n) =
     [SetConfigFlags FLAG_WINDOW_RESIZABLE, InitWindow 800 450 ''Raylib Test'', SetTargetFPS 60] @
     concat (map (pass_c lib c) [0..<n]) @ [WindowShouldClose True, CloseWindow]"
  by (simp add: trace_def run_of_c_def)

lemma at_exit_run_of_c: "at_exit (run_of_c lib c n) = locals_after lib c n"
  by (simp add: run_of_c_def)

lemma three_passes:
  "frames (run_of_c lib c 3) = [pass_c lib c 0, pass_c lib c 1, pass_c lib c 2]"
  by (simp add: frames_run_of_c numeral_3_eq_3 numeral_2_eq_2)

lemma text_outside_passes:
  "text_outside_3d False (concat (map (pass_c lib c) ks) @ rest) = text_outside_3d False rest"
  by (induction ks) (simp_all add: pass_c_calls)

lemma run_cpp_eq_run_c: "run_cpp lib cam = run_c lib cam"
proof (cases "\<exists>m. should_close lib m")
  case True
  then obtain n where "should_close lib n" "polled lib n"
    using first_close by blast
  then show ?thesis
    by (simp add: run_c_closed run_cpp_closed run_of_cpp_eq)
next
  case False
  then show ?thesis
    by (simp add: run_c_never run_cpp_never)
qed

lemma returned_run:
  assumes "main_c lib = Some r \<and> c0 = camera_c \<or> main_cpp lib = Some r \<and> c0 = camera_cpp"
  shows "\<exists>n. should_close lib n \<and> polled lib n \<and> r = run_of_c lib c0 n"
  using assms run_c_returns [of lib c0 r]
  by (auto simp: main_c_def main_cpp_def run_cpp_eq_run_c)

lemma polled_mono: "polled lib n \<Longrightarrow> k \<le> n \<Longrightarrow> polled lib k"
  by (simp add: polled_def)

lemma camera_after_same:
  assumes "same_observations lib1 lib2 c" and "polled lib1 k"
  shows "camera_after lib2 c k = camera_after lib1 c k"
  using assms(2)
proof (induction k)
  case 0
  show ?case by simp
next
  case (Suc k)
  then have "polled lib1 k"
    by (simp add: polled_def)
  with Suc have "camera_after lib2 c k = camera_after lib1 c k"
    by simp
  moreover have "update_camera lib2 k (camera_after lib1 c k) CAMERA_FREE =
                 update_camera lib1 k (camera_after lib1 c k) CAMERA_FREE"
    using assms(1) Suc.prems by (simp add: same_observations_def)
  ultimately show ?case by simp
qed

lemma run_c_same:
  assumes "same_observations lib1 lib2 c"
  shows "run_c lib2 c = run_c lib1 c"
proof (cases "\<exists>m. should_close lib1 m")
  case True
  then obtain n where n: "should_close lib1 n" "polled lib1 n"
    using first_close by blast
  have polls: "should_close lib2 k = should_close lib1 k" if "k \<le> n" for k
    using assms polled_mono [OF n(2) that] by (simp add: same_observations_def)
  have n2: "should_close lib2 n" "polled lib2 n"
    using n polls by (auto simp: polled_def)
  have cams: "camera_after lib2 c k = camera_after lib1 c k" if "k \<le> n" for k
    using camera_after_same [OF assms polled_mono [OF n(2) that]] .
  have cols: "GRAY lib2 = GRAY lib1" "RED lib2 = RED lib1"
    using assms by (simp_all add: same_observations_def)
  have "pass_c lib2 c k = pass_c lib1 c k" if "k < n" for k
    using cams [of k] cams [of "Suc k"] that cols
    unfolding pass_c_calls by simp
  then have "map (pass_c lib2 c) [0..<n] = map (pass_c lib1 c) [0..<n]"
    by simp
  then have "run_of_c lib2 c n = run_of_c lib1 c n"
    using cams [of n] by (simp add: run_of_c_def locals_after_def)
  then show ?thesis
    by (simp add: run_c_closed [OF n] run_c_closed [OF n2])
next
  case False
  then have "polled lib1 k" for k
    by (simp add: polled_def)
  with assms False have "\<forall>k. \<not> should_close lib2 k"
    by (simp add: same_observations_def)
  with False show ?thesis
    by (simp add: run_c_never)
qed

subsection \<open>The sample libraries\<close>

lemma close_after_simps:
  "GRAY (close_after n) = Color 130 130 130 255"
  "RED (close_after n) = Color 230 41 55 255"
  "should_close (close_after n) k = (n \<le> k)"
  "update_camera (close_after n) = step_x"
  by (simp_all add: close_after_def)

lemma polled_close_after: "polled (close_after n) k = (k \<le> n)"
  unfolding polled_def close_after_simps by (metis not_less order_refl le_less_trans leD)

lemma main_c_close_after:
  "main_c (close_after n) = Some (run_of_c (close_after n) camera_c n)"
  unfolding main_c_def by (rule run_c_closed) (simp_all add: close_after_simps polled_close_after)

lemma main_cpp_close_after:
  "main_cpp (close_after n) = Some (run_of_c (close_after n) camera_cpp n)"
  unfolding main_cpp_def run_cpp_eq_run_c
  by (rule run_c_closed) (simp_all add: close_after_simps polled_close_after)

lemma same_observations_close_once: "same_observations (close_after 3) close_once c"
  unfolding same_observations_def polled_close_after
  by (auto simp: close_after_simps close_once_def)

section \<open>The claims\<close>

text \<open>
  C1 (amended). For every sequence of \<open>N\<close> close polls of which the first \<open>N - 1\<close>
  answer false and the \<open>N\<close>-th answers true, a run of \<^verbatim>\<open>main.c\<close> returns after
  exactly \<open>N - 1\<close> passes through the loop, each of them a full frame (poll, camera
  update, begin, clear, the 3D scope with cube and grid, the overlay text, present, in
  this order), and then tears the window down exactly once, as its last call. The
  poll that answers true starts no frame.
\<close>

theorem C1_one_pass_per_false_poll:
  assumes "0 < N"
    and "\<forall>k. Suc k < N \<longrightarrow> \<not> should_close lib k"
    and "should_close lib (N - 1)"
  shows "\<exists>r. main_c lib = Some r \<and>
           length (frames r) = N - 1 \<and>
           frames r =
             map (\<lambda>k. [WindowShouldClose False,
                        UpdateCamera (camera_after lib camera_c k) CAMERA_FREE
                          (camera_after lib camera_c (Suc k)),
                        BeginDrawing,
                        ClearBackground (GRAY lib),
                        BeginMode3D (camera_after lib camera_c (Suc k)),
                        DrawCube (Vector3 0 0 0) 2 2 2 (RED lib),
                        DrawGrid 10 1,
                        EndMode3D,
                        DrawText ''Test'' 10 10 16 (Color 255 255 255 255),
                        EndDrawing]) [0..<N - 1] \<and>
           teardown r = [WindowShouldClose True, CloseWindow] \<and>
           count_list (trace r) CloseWindow = 1 \<and>
           last (trace r) = CloseWindow"
proof -
  have p: "polled lib (N - 1)"
    using assms(1,2) by (auto simp: polled_def)
  have r: "main_c lib = Some (run_of_c lib camera_c (N - 1))"
    unfolding main_c_def by (rule run_c_closed [OF assms(3) p])
  have "count_list (trace (run_of_c lib camera_c (N - 1))) CloseWindow = 1"
    by (simp add: trace_run_of_c count_CloseWindow_passes)
  moreover have "last (trace (run_of_c lib camera_c (N - 1))) = CloseWindow"
    by (simp add: trace_run_of_c)
  moreover have "frames (run_of_c lib camera_c (N - 1)) =
      map (\<lambda>k. [WindowShouldClose False,
                        UpdateCamera (camera_after lib camera_c k) CAMERA_FREE
                          (camera_after lib camera_c (Suc k)),
                        BeginDrawing,
                        ClearBackground (GRAY lib),
                        BeginMode3D (camera_after lib camera_c (Suc k)),
                        DrawCube (Vector3 0 0 0) 2 2 2 (RED lib),
                        DrawGrid 10 1,
                        EndMode3D,
                        DrawText ''Test'' 10 10 16 (Color 255 255 255 255),
                        EndDrawing]) [0..<N - 1]"
    by (simp add: run_of_c_def pass_c_calls)
  moreover have "teardown (run_of_c lib camera_c (N - 1)) = [WindowShouldClose True, CloseWindow]"
    by (simp add: run_of_c_def)
  ultimately show ?thesis
    using r by simp
qed

text \<open>
  The theorem at four polls, of which the last answers true: three passes.
\<close>

theorem C1_witness:
  "\<exists>r. main_c (close_after 3) = Some r \<and> length (frames r) = 3 \<and>
       count_list (trace r) CloseWindow = 1"
  using C1_one_pass_per_false_poll [of 4 "close_after 3"]
  by (auto simp: close_after_def)

text \<open>
  C1 as the specification words it fails: with a single poll, which answers true
  (\<open>N = 1\<close>), the run makes no pass through the loop, not one.
\<close>

theorem C1_counterexample:
  "should_close (close_after 0) 0 \<and>
   map_option (length \<circ> frames) (main_c (close_after 0)) = Some 0 \<and>
   map_option (length \<circ> frames) (main_c (close_after 0)) \<noteq> Some 1"
  by (simp add: main_c_def run_c_def main_c_loop.simps close_after_def)

text \<open>
  C2 (amended). When the poll at the head of the loop answers true, the loop of
  \<^verbatim>\<open>main.c\<close> ends at once and \<^verbatim>\<open>main\<close> returns: if poll \<open>n\<close> happens and
  answers true, the run returns after exactly \<open>n\<close> passes, its calls end with that
  poll and \<^verbatim>\<open>CloseWindow\<close>, no earlier poll answered true, and no clear, draw or
  present follows the poll. Every pass that was begun (its poll answered false) is
  complete: clear, the 3D scope with cube and grid, the overlay text, present, in this
  order, so that no frame is abandoned half-way. Conversely, a run that has returned
  with some number of frames has seen that many polls answer false and the next one
  answer true.
\<close>

theorem C2_true_poll_ends_loop_at_once:
  "(polled lib n \<and> should_close lib n \<longrightarrow>
      (\<exists>r. main_c lib = Some r \<and>
           length (frames r) = n \<and>
           (\<exists>pre. trace r = pre @ [WindowShouldClose True, CloseWindow] \<and>
                  WindowShouldClose True \<notin> set pre) \<and>
           (\<forall>f\<in>set (frames r).
              hd f = WindowShouldClose False \<and>
              (\<exists>c. filter is_render f =
                     [ClearBackground (GRAY lib), BeginMode3D c,
                      DrawCube (Vector3 0 0 0) 2 2 2 (RED lib), DrawGrid 10 1, EndMode3D,
                      DrawText ''Test'' 10 10 16 (Color 255 255 255 255), EndDrawing]) \<and>
              last f = EndDrawing))) \<and>
   (main_c lib = Some r' \<longrightarrow>
      polled lib (length (frames r')) \<and> should_close lib (length (frames r')))"
proof (rule conjI; rule impI)
  assume n: "polled lib n \<and> should_close lib n"
  let ?r = "run_of_c lib camera_c n"
  let ?pre = "[SetConfigFlags FLAG_WINDOW_RESIZABLE, InitWindow 800 450 ''Raylib Test'',
               SetTargetFPS 60] @ concat (map (pass_c lib camera_c) [0..<n])"
  have returns: "main_c lib = Some ?r"
    unfolding main_c_def using n by (simp add: run_c_closed)
  have "trace ?r = ?pre @ [WindowShouldClose True, CloseWindow]"
    by (simp add: trace_run_of_c)
  moreover have "WindowShouldClose True \<notin> set ?pre"
    using no_close_poll_in_passes [of lib camera_c "[0..<n]"] by simp
  ultimately have a: "\<exists>pre. trace ?r = pre @ [WindowShouldClose True, CloseWindow] \<and>
                WindowShouldClose True \<notin> set pre"
    by blast
  have len: "length (frames ?r) = n"
    by (simp add: frames_run_of_c)
  have b: "\<forall>f\<in>set (frames ?r).
            hd f = WindowShouldClose False \<and>
            (\<exists>c. filter is_render f =
                   [ClearBackground (GRAY lib), BeginMode3D c,
                    DrawCube (Vector3 0 0 0) 2 2 2 (RED lib), DrawGrid 10 1, EndMode3D,
                    DrawText ''Test'' 10 10 16 (Color 255 255 255 255), EndDrawing]) \<and>
            last f = EndDrawing"
    by (auto simp: frames_run_of_c pass_c_calls)
  show "\<exists>r. main_c lib = Some r \<and>
           length (frames r) = n \<and>
           (\<exists>pre. trace r = pre @ [WindowShouldClose True, CloseWindow] \<and>
                  WindowShouldClose True \<notin> set pre) \<and>
           (\<forall>f\<in>set (frames r).
              hd f = WindowShouldClose False \<and>
              (\<exists>c. filter is_render f =
                     [ClearBackground (GRAY lib), BeginMode3D c,
                      DrawCube (Vector3 0 0 0) 2 2 2 (RED lib), DrawGrid 10 1, EndMode3D,
                      DrawText ''Test'' 10 10 16 (Color 255 255 255 255), EndDrawing]) \<and>
              last f = EndDrawing)"
    using returns len a b by blast
next
  assume "main_c lib = Some r'"
  then obtain m where m: "should_close lib m" "polled lib m"
    and r': "r' = run_of_c lib camera_c m"
    using run_c_returns [of lib camera_c r'] by (auto simp: main_c_def)
  have "length (frames r') = m"
    by (simp add: r' frames_run_of_c)
  with m show "polled lib (length (frames r')) \<and> should_close lib (length (frames r'))"
    by simp
qed

text \<open>
  The theorem at a library whose second poll is the first to answer true: the run
  returns, with one frame.
\<close>

theorem C2_witness:
  "polled (close_after 1) 1 \<and> should_close (close_after 1) 1 \<and>
   (\<exists>r. main_c (close_after 1) = Some r \<and> length (frames r) = 1 \<and>
        (\<exists>pre. trace r = pre @ [WindowShouldClose True, CloseWindow] \<and>
               WindowShouldClose True \<notin> set pre)) \<and>
   polled (close_after 1) (length (frames (the (main_c (close_after 1))))) \<and>
   should_close (close_after 1) (length (frames (the (main_c (close_after 1)))))"
proof -
  have n: "polled (close_after 1) 1 \<and> should_close (close_after 1) 1"
    by (simp add: polled_close_after close_after_simps)
  have r: "main_c (close_after 1) = Some (run_of_c (close_after 1) camera_c 1)"
    by (rule main_c_close_after)
  show ?thesis
    using n r
      C2_true_poll_ends_loop_at_once [of "close_after 1" 1 "run_of_c (close_after 1) camera_c 1"]
    by auto
qed

text \<open>
  C2 as the specification words it fails: in this run the second poll answers true,
  and what follows it is \<^verbatim>\<open>CloseWindow\<close> alone, not the clear, draws and present
  of another iteration.
\<close>

theorem C2_counterexample:
  "map_option trace (main_c (close_after 1)) =
     Some [SetConfigFlags FLAG_WINDOW_RESIZABLE,
           InitWindow 800 450 ''Raylib Test'',
           SetTargetFPS 60,
           WindowShouldClose False,
           UpdateCamera camera_c CAMERA_FREE (camera_c\<lparr>position := Vector3 11 10 10\<rparr>),
           BeginDrawing,
           ClearBackground (Color 130 130 130 255),
           BeginMode3D (camera_c\<lparr>position := Vector3 11 10 10\<rparr>),
           DrawCube (Vector3 0 0 0) 2 2 2 (Color 230 41 55 255),
           DrawGrid 10 1,
           EndMode3D,
           DrawText ''Test'' 10 10 16 (Color 255 255 255 255),
           EndDrawing,
           WindowShouldClose True,
           CloseWindow]"
  by (simp add: main_c_def run_c_def main_c_loop.simps main_c_body_def close_after_def
      step_x_def camera_c_def trace_def Let_def)

text \<open>
  C3. In every pass through the loop, of either program, \<^verbatim>\<open>BeginMode3D\<close> is called
  exactly once, \<^verbatim>\<open>EndMode3D\<close> exactly once after it and \<^verbatim>\<open>DrawText\<close> only after
  that: the overlay text is never drawn inside the 3D scope. The first four conjuncts
  are about the body of the loop in any pass and with any variables, so they hold in a
  run that never returns as well; the last is about the frames of a run that returns,
  and about its calls as one sequence.
\<close>

theorem C3_mode3d_closed_before_text:
  "filter is_mode3d_or_text (snd (main_c_body lib k s)) =
     [BeginMode3D (update_camera lib k (camera s) CAMERA_FREE), EndMode3D,
      DrawText ''Test'' 10 10 16 (Color 255 255 255 255)] \<and>
   text_outside_3d False (snd (main_c_body lib k s)) \<and>
   filter is_mode3d_or_text (snd (main_cpp_body lib k s)) =
     [BeginMode3D (update_camera lib k (camera s) CAMERA_FREE), EndMode3D,
      DrawText ''Test'' 10 10 16 (Color 255 255 255 255)] \<and>
   text_outside_3d False (snd (main_cpp_body lib k s)) \<and>
   (main_c lib = Some r \<or> main_cpp lib = Some r \<longrightarrow>
      (\<forall>f\<in>set (frames r).
         (\<exists>c. filter is_mode3d_or_text f =
                [BeginMode3D c, EndMode3D,
                 DrawText ''Test'' 10 10 16 (Color 255 255 255 255)]) \<and>
         text_outside_3d False f) \<and>
      text_outside_3d False (trace r))"
proof -
  have "(\<forall>f\<in>set (frames r).
         (\<exists>c. filter is_mode3d_or_text f =
                [BeginMode3D c, EndMode3D,
                 DrawText ''Test'' 10 10 16 (Color 255 255 255 255)]) \<and>
         text_outside_3d False f) \<and>
      text_outside_3d False (trace r)"
    if "main_c lib = Some r \<or> main_cpp lib = Some r"
  proof -
    from that obtain c0 n where r: "r = run_of_c lib c0 n"
      using returned_run [of lib r camera_c] returned_run [of lib r camera_cpp] by blast
    have "text_outside_3d False (trace r)"
      by (simp add: r trace_run_of_c text_outside_passes)
    then show ?thesis
      by (auto simp: r frames_run_of_c pass_c_calls)
  qed
  then show ?thesis
    by (simp add: main_c_body_def main_cpp_body_def Let_def)
qed

text \<open>
  The theorem at the third frame of a run of \<^verbatim>\<open>main.cpp\<close> with three frames.
\<close>

theorem C3_witness:
  "main_cpp (close_after 3) \<noteq> None \<and>
   text_outside_3d False (frames (the (main_cpp (close_after 3))) ! 2) \<and>
   text_outside_3d False (trace (the (main_cpp (close_after 3))))"
  using C3_mode3d_closed_before_text [of "close_after 3" _ _ "run_of_c (close_after 3) camera_cpp 3"]
  by (simp add: main_cpp_close_after three_passes)

text \<open>
  C4. In every pass through the loop, of either program, the cube and grid draws are
  one \<^verbatim>\<open>DrawCube\<close> followed by one \<^verbatim>\<open>DrawGrid\<close>: for the body of the loop in any
  pass, and for every frame of a run that returns.
\<close>

theorem C4_cube_before_grid:
  "filter is_cube_or_grid (snd (main_c_body lib k s)) =
     [DrawCube (cube_position s) 2 2 2 (RED lib), DrawGrid 10 1] \<and>
   filter is_cube_or_grid (snd (main_cpp_body lib k s)) =
     [DrawCube (cube_position s) 2 2 2 (RED lib), DrawGrid 10 1] \<and>
   (main_c lib = Some r \<or> main_cpp lib = Some r \<longrightarrow>
      (\<forall>f\<in>set (frames r).
         filter is_cube_or_grid f = [DrawCube (Vector3 0 0 0) 2 2 2 (RED lib), DrawGrid 10 1]))"
proof -
  have "\<forall>f\<in>set (frames r).
         filter is_cube_or_grid f = [DrawCube (Vector3 0 0 0) 2 2 2 (RED lib), DrawGrid 10 1]"
    if "main_c lib = Some r \<or> main_cpp lib = Some r"
  proof -
    from that obtain c0 n where r: "r = run_of_c lib c0 n"
      using returned_run [of lib r camera_c] returned_run [of lib r camera_cpp] by blast
    show ?thesis
      by (auto simp: r frames_run_of_c pass_c_calls)
  qed
  then show ?thesis
    by (simp add: main_c_body_def main_cpp_body_def Let_def)
qed

text \<open>
  The theorem at the first frame of a run of \<^verbatim>\<open>main.c\<close> with three frames.
\<close>

theorem C4_witness:
  "main_c (close_after 3) \<noteq> None \<and>
   filter is_cube_or_grid (frames (the (main_c (close_after 3))) ! 0) =
     [DrawCube (Vector3 0 0 0) 2 2 2 (Color 230 41 55 255), DrawGrid 10 1]"
  using C4_cube_before_grid [of "close_after 3" _ _ "run_of_c (close_after 3) camera_c 3"]
  by (simp add: main_c_close_after three_passes close_after_simps)

text \<open>
  C5. In every pass through the loop of \<^verbatim>\<open>main.c\<close>, the camera given to
  \<^verbatim>\<open>BeginMode3D\<close> is the camera that the \<^verbatim>\<open>UpdateCamera\<close> call of the same pass
  has just left in the variable, not the one of an earlier pass: for the body of the
  loop in any pass, and for frame \<open>k\<close> of a run that returns, where it is the
  result of the update of that frame.
\<close>

theorem C5_mode3d_gets_this_frames_camera:
  "filter is_camera_call (snd (main_c_body lib k s)) =
     [UpdateCamera (camera s) CAMERA_FREE (update_camera lib k (camera s) CAMERA_FREE),
      BeginMode3D (update_camera lib k (camera s) CAMERA_FREE)] \<and>
   (main_c lib = Some r \<and> k < length (frames r) \<longrightarrow>
      filter is_camera_call (frames r ! k) =
        [UpdateCamera (camera_after lib camera_c k) CAMERA_FREE
           (update_camera lib k (camera_after lib camera_c k) CAMERA_FREE),
         BeginMode3D (update_camera lib k (camera_after lib camera_c k) CAMERA_FREE)])"
proof -
  have "filter is_camera_call (frames r ! k) =
        [UpdateCamera (camera_after lib camera_c k) CAMERA_FREE
           (update_camera lib k (camera_after lib camera_c k) CAMERA_FREE),
         BeginMode3D (update_camera lib k (camera_after lib camera_c k) CAMERA_FREE)]"
    if "main_c lib = Some r" and "k < length (frames r)"
  proof -
    from that(1) obtain n where r: "r = run_of_c lib camera_c n"
      using returned_run [of lib r camera_c] by blast
    with that(2) have "frames r ! k = pass_c lib camera_c k"
      by (simp add: frames_run_of_c)
    then show ?thesis
      by (simp add: pass_c_calls)
  qed
  then show ?thesis
    by (simp add: main_c_body_def Let_def)
qed

text \<open>
  The theorem at the second frame of a run in which the camera moves in every frame:
  the 3D scope gets the position of this frame (12), not of the frame before (11).
\<close>

theorem C5_witness:
  "main_c (close_after 3) \<noteq> None \<and>
   filter is_camera_call (frames (the (main_c (close_after 3))) ! 1) =
     [UpdateCamera (camera_c\<lparr>position := Vector3 11 10 10\<rparr>) CAMERA_FREE
        (camera_c\<lparr>position := Vector3 12 10 10\<rparr>),
      BeginMode3D (camera_c\<lparr>position := Vector3 12 10 10\<rparr>)]"
  using C5_mode3d_gets_this_frames_camera [of "close_after 3" 1 _ "run_of_c (close_after 3) camera_c 3"]
  by (simp add: main_c_close_after three_passes close_after_simps step_x_def camera_c_def)

text \<open>
  C6. When the first poll answers true, \<^verbatim>\<open>main.c\<close> opens the window (resizable,
  800 by 450, titled "Raylib Test"), makes no pass through the loop, closes the window
  and returns 0. Every run that returns returns 0, and a run returns exactly when some
  poll answers true.
\<close>

theorem C6_close_on_first_poll:
  "(should_close lib 0 \<longrightarrow>
      main_c lib =
        Some \<lparr>startup = [SetConfigFlags FLAG_WINDOW_RESIZABLE,
                         InitWindow 800 450 ''Raylib Test'', SetTargetFPS 60],
              frames = [],
              teardown = [WindowShouldClose True, CloseWindow],
              at_exit = \<lparr>camera = camera_c, cube_position = Vector3 0 0 0\<rparr>,
              exit_code = 0\<rparr>) \<and>
   (\<forall>r. main_c lib = Some r \<longrightarrow> exit_code r = 0) \<and>
   ((\<exists>r. main_c lib = Some r) = (\<exists>n. should_close lib n))"
proof (intro conjI impI allI)
  assume "should_close lib 0"
  then show "main_c lib =
        Some \<lparr>startup = [SetConfigFlags FLAG_WINDOW_RESIZABLE,
                         InitWindow 800 450 ''Raylib Test'', SetTargetFPS 60],
              frames = [],
              teardown = [WindowShouldClose True, CloseWindow],
              at_exit = \<lparr>camera = camera_c, cube_position = Vector3 0 0 0\<rparr>,
              exit_code = 0\<rparr>"
    by (simp add: main_c_def run_c_def main_c_loop.simps)
next
  fix r
  assume "main_c lib = Some r"
  then obtain n where "r = run_of_c lib camera_c n"
    using run_c_returns [of lib camera_c r] by (auto simp: main_c_def)
  then show "exit_code r = 0"
    by (simp add: run_of_c_def)
next
  show "(\<exists>r. main_c lib = Some r) = (\<exists>n. should_close lib n)"
  proof
    assume "\<exists>r. main_c lib = Some r"
    then show "\<exists>n. should_close lib n"
      using run_c_returns [of lib camera_c] by (auto simp: main_c_def)
  next
    assume "\<exists>n. should_close lib n"
    then obtain n where "should_close lib n" "polled lib n"
      using first_close by blast
    then show "\<exists>r. main_c lib = Some r"
      using run_c_closed [of lib n camera_c] by (auto simp: main_c_def)
  qed
qed

text \<open>
  The theorem at a library whose first poll answers true.
\<close>

theorem C6_witness:
  "main_c (close_after 0) =
     Some \<lparr>startup = [SetConfigFlags FLAG_WINDOW_RESIZABLE,
                      InitWindow 800 450 ''Raylib Test'', SetTargetFPS 60],
           frames = [],
           teardown = [WindowShouldClose True, CloseWindow],
           at_exit = \<lparr>camera = camera_c, cube_position = Vector3 0 0 0\<rparr>,
           exit_code = 0\<rparr> \<and>
   exit_code (the (main_c (close_after 0))) = 0"
  using C6_close_on_first_poll [of "close_after 0"]
  by (simp add: close_after_simps)

text \<open>
  C7. When three polls answer false and the fourth answers true, \<^verbatim>\<open>main.c\<close>
  returns after exactly three passes, and the draws of each are one cube at the origin
  of size 2 by 2 by 2 in the library's red, one grid of 10 slices with spacing 1, and
  the text "Test" at (10, 10) in size 16 and opaque white.
\<close>

theorem C7_three_false_polls:
  assumes "\<not> should_close lib 0" and "\<not> should_close lib 1" and "\<not> should_close lib 2"
    and "should_close lib 3"
  shows "\<exists>r. main_c lib = Some r \<and>
           length (frames r) = 3 \<and>
           (\<forall>f\<in>set (frames r).
              filter is_draw f =
                [DrawCube (Vector3 0 0 0) 2 2 2 (RED lib),
                 DrawGrid 10 1,
                 DrawText ''Test'' 10 10 16 (Color 255 255 255 255)])"
proof -
  have "polled lib 3"
    using assms(1-3) by (auto simp: polled_def numeral_3_eq_3 numeral_2_eq_2 less_Suc_eq)
  then have "main_c lib = Some (run_of_c lib camera_c 3)"
    unfolding main_c_def using assms(4) run_c_closed by blast
  then show ?thesis
    by (simp add: three_passes pass_c_calls)
qed

text \<open>
  The theorem at such a library, read at its third frame.
\<close>

theorem C7_witness:
  "\<exists>r. main_c (close_after 3) = Some r \<and> length (frames r) = 3 \<and>
       filter is_draw (frames r ! 2) =
         [DrawCube (Vector3 0 0 0) 2 2 2 (Color 230 41 55 255),
          DrawGrid 10 1,
          DrawText ''Test'' 10 10 16 (Color 255 255 255 255)]"
proof -
  obtain r where r: "main_c (close_after 3) = Some r" "length (frames r) = 3"
    and d: "\<forall>f\<in>set (frames r).
              filter is_draw f =
                [DrawCube (Vector3 0 0 0) 2 2 2 (RED (close_after 3)),
                 DrawGrid 10 1,
                 DrawText ''Test'' 10 10 16 (Color 255 255 255 255)]"
    using C7_three_false_polls [of "close_after 3"] by (auto simp: close_after_simps)
  have "frames r ! 2 \<in> set (frames r)"
    using r(2) by simp
  with d r show ?thesis
    by (auto simp: close_after_simps)
qed

text \<open>
  C8. A pass through the loop, of either program, changes the variables of \<^verbatim>\<open>main\<close>
  in the camera only, through its one \<^verbatim>\<open>UpdateCamera\<close> call, and draws with the
  cube position it found and with constant sizes, colours, grid and text. In a run
  that returns, every frame draws the cube, grid and text with their values from
  startup, the \<^verbatim>\<open>UpdateCamera\<close> call of frame \<open>j\<close> takes the camera from its value
  after \<open>j\<close> updates to its value after \<open>j + 1\<close>, and at the end the camera has been
  updated once per frame and the cube position is the one from startup.
\<close>

theorem C8_only_the_camera_changes:
  "fst (main_c_body lib k s) = s\<lparr>camera := update_camera lib k (camera s) CAMERA_FREE\<rparr> \<and>
   fst (main_cpp_body lib k s) = s\<lparr>camera := update_camera lib k (camera s) CAMERA_FREE\<rparr> \<and>
   filter is_update (snd (main_c_body lib k s)) =
     [UpdateCamera (camera s) CAMERA_FREE (update_camera lib k (camera s) CAMERA_FREE)] \<and>
   filter is_update (snd (main_cpp_body lib k s)) =
     [UpdateCamera (camera s) CAMERA_FREE (update_camera lib k (camera s) CAMERA_FREE)] \<and>
   filter is_draw (snd (main_c_body lib k s)) =
     [DrawCube (cube_position s) 2 2 2 (RED lib), DrawGrid 10 1,
      DrawText ''Test'' 10 10 16 (Color 255 255 255 255)] \<and>
   filter is_draw (snd (main_cpp_body lib k s)) =
     [DrawCube (cube_position s) 2 2 2 (RED lib), DrawGrid 10 1,
      DrawText ''Test'' 10 10 16 (Color 255 255 255 255)] \<and>
   (main_c lib = Some r \<and> c0 = camera_c \<or> main_cpp lib = Some r \<and> c0 = camera_cpp \<longrightarrow>
      map (filter is_draw) (frames r) =
        replicate (length (frames r))
          [DrawCube (Vector3 0 0 0) 2 2 2 (RED lib), DrawGrid 10 1,
           DrawText ''Test'' 10 10 16 (Color 255 255 255 255)] \<and>
      map (filter is_update) (frames r) =
        map (\<lambda>j. [UpdateCamera (camera_after lib c0 j) CAMERA_FREE
                     (update_camera lib j (camera_after lib c0 j) CAMERA_FREE)])
          [0..<length (frames r)] \<and>
      at_exit r =
        \<lparr>camera = camera_after lib c0 (length (frames r)), cube_position = Vector3 0 0 0\<rparr>)"
proof -
  have "map (filter is_draw) (frames r) =
        replicate (length (frames r))
          [DrawCube (Vector3 0 0 0) 2 2 2 (RED lib), DrawGrid 10 1,
           DrawText ''Test'' 10 10 16 (Color 255 255 255 255)] \<and>
      map (filter is_update) (frames r) =
        map (\<lambda>j. [UpdateCamera (camera_after lib c0 j) CAMERA_FREE
                     (update_camera lib j (camera_after lib c0 j) CAMERA_FREE)])
          [0..<length (frames r)] \<and>
      at_exit r =
        \<lparr>camera = camera_after lib c0 (length (frames r)), cube_position = Vector3 0 0 0\<rparr>"
    if "main_c lib = Some r \<and> c0 = camera_c \<or> main_cpp lib = Some r \<and> c0 = camera_cpp"
  proof -
    from that obtain n where r: "r = run_of_c lib c0 n"
      using returned_run [of lib r c0] by blast
    have "map (filter is_draw) (frames r) =
           replicate (length (frames r))
             [DrawCube (Vector3 0 0 0) 2 2 2 (RED lib), DrawGrid 10 1,
              DrawText ''Test'' 10 10 16 (Color 255 255 255 255)]"
      by (simp add: r frames_run_of_c pass_c_calls map_replicate_const comp_def)
    moreover have "map (filter is_update) (frames r) =
           map (\<lambda>j. [UpdateCamera (camera_after lib c0 j) CAMERA_FREE
                        (update_camera lib j (camera_after lib c0 j) CAMERA_FREE)])
             [0..<length (frames r)]"
      by (simp add: r frames_run_of_c pass_c_calls)
    moreover have "at_exit r =
           \<lparr>camera = camera_after lib c0 (length (frames r)), cube_position = Vector3 0 0 0\<rparr>"
      by (simp add: r frames_run_of_c at_exit_run_of_c locals_after_def)
    ultimately show ?thesis
      by simp
  qed
  then show ?thesis
    by (simp add: main_c_body_def main_cpp_body_def Let_def)
qed

text \<open>
  The theorem at a run of \<^verbatim>\<open>main.cpp\<close> with three frames.
\<close>

theorem C8_witness:
  "main_cpp (close_after 3) \<noteq> None \<and>
   map (filter is_update) (frames (the (main_cpp (close_after 3)))) =
     [[UpdateCamera camera_cpp CAMERA_FREE (camera_cpp\<lparr>position := Vector3 6 5 5\<rparr>)],
      [UpdateCamera (camera_cpp\<lparr>position := Vector3 6 5 5\<rparr>) CAMERA_FREE
         (camera_cpp\<lparr>position := Vector3 7 5 5\<rparr>)],
      [UpdateCamera (camera_cpp\<lparr>position := Vector3 7 5 5\<rparr>) CAMERA_FREE
         (camera_cpp\<lparr>position := Vector3 8 5 5\<rparr>)]] \<and>
   at_exit (the (main_cpp (close_after 3))) =
     \<lparr>camera = camera_cpp\<lparr>position := Vector3 8 5 5\<rparr>, cube_position = Vector3 0 0 0\<rparr>"
proof -
  have len: "length (frames (run_of_c (close_after 3) camera_cpp 3)) = 3"
    by (simp add: frames_run_of_c)
  show ?thesis
    using C8_only_the_camera_changes [of "close_after 3" _ _ "run_of_c (close_after 3) camera_cpp 3"
        camera_cpp]
    unfolding len
    by (simp add: main_cpp_close_after close_after_simps step_x_def camera_cpp_def
        numeral_3_eq_3 numeral_2_eq_2)
qed

text \<open>
  C9. Started with the same camera, the two programs do the same with every library:
  both return or neither does, with the same calls, arguments, variables and exit code.
  The programs themselves differ in the position of the initial camera alone:
  (10, 10, 10) in \<^verbatim>\<open>main.c\<close>, (5, 5, 5) in \<^verbatim>\<open>main.cpp\<close>.
\<close>

theorem C9_variants_differ_in_camera_position_only:
  "run_cpp lib cam = run_c lib cam \<and>
   main_c lib = run_c lib camera_c \<and>
   main_cpp lib = run_cpp lib camera_cpp \<and>
   camera_cpp = camera_c\<lparr>position := Vector3 5 5 5\<rparr> \<and>
   position camera_c = Vector3 10 10 10"
  by (simp add: run_cpp_eq_run_c main_c_def main_cpp_def camera_c_def camera_cpp_def)

text \<open>
  The theorem at a library that closes after three frames.
\<close>

theorem C9_witness:
  "run_cpp (close_after 3) camera_cpp = run_c (close_after 3) camera_cpp \<and>
   main_cpp (close_after 3) = run_c (close_after 3) (camera_c\<lparr>position := Vector3 5 5 5\<rparr>)"
  using C9_variants_differ_in_camera_position_only [of "close_after 3" camera_cpp]
  by simp

text \<open>
  C10. The library is the programs' only input, and a run depends on it only through
  what the run observes: with two libraries that give the same colours, the same
  answers to the polls that happen and the same cameras from the updates that happen
  in a run of a program, that program returns the same run (calls, arguments, order,
  exit code) with both, or returns with neither. Each program needs the agreement
  along its own run only.
\<close>

theorem C10_runs_depend_on_observations_only:
  "(same_observations lib1 lib2 camera_c \<longrightarrow> main_c lib2 = main_c lib1) \<and>
   (same_observations lib1 lib2 camera_cpp \<longrightarrow> main_cpp lib2 = main_cpp lib1)"
proof (intro conjI impI)
  assume "same_observations lib1 lib2 camera_c"
  then show "main_c lib2 = main_c lib1"
    unfolding main_c_def by (rule run_c_same)
next
  assume "same_observations lib1 lib2 camera_cpp"
  then have "run_c lib2 camera_cpp = run_c lib1 camera_cpp"
    by (rule run_c_same)
  then show "main_cpp lib2 = main_cpp lib1"
    by (simp add: main_cpp_def run_cpp_eq_run_c)
qed

text \<open>
  The theorem at two libraries that differ after the poll that ends the run: the
  fifth poll answers differently, the runs are the same.
\<close>

theorem C10_witness:
  "same_observations (close_after 3) close_once camera_c \<and>
   same_observations (close_after 3) close_once camera_cpp \<and>
   should_close close_once 4 \<noteq> should_close (close_after 3) 4 \<and>
   main_c close_once = main_c (close_after 3) \<and>
   main_cpp close_once = main_cpp (close_after 3) \<and>
   main_c close_once \<noteq> None"
  using C10_runs_depend_on_observations_only [of "close_after 3" close_once]
    same_observations_close_once [of camera_c] same_observations_close_once [of camera_cpp]
  by (simp add: main_c_close_after close_once_def close_after_simps)

end
